theory Spec2Isabelle
  imports Main "HOL-Library.Sublist"
begin

section \<open>Conventions\<close>

text \<open>
  The development embeds \<^verbatim>\<open>zookeeper_cli.py\<close>. Python strings are lists of
  characters; the two box-drawing glyphs of the tree printer are written as their UTF-8
  bytes. Everything the script does to the outside world (printing, file access, calls to
  the Kazoo client, leaving the process) is recorded in an event trace carried by the
  program state, and every way a call can end (return, \<^verbatim>\<open>exit(code)\<close>, an
  exception nobody catches) is a value of the type \<open>result\<close>.
\<close>

section \<open>Python string primitives\<close>

definition startswith :: "string \<Rightarrow> string \<Rightarrow> bool" where
  "startswith pre s = prefix pre s"

definition endswith :: "string \<Rightarrow> string \<Rightarrow> bool" where
  "endswith suf s = suffix suf s"

text \<open>\<^verbatim>\<open>str.isspace\<close> on the ASCII range: TAB, LF, VT, FF, CR, FS, GS, RS, US, SPACE.\<close>

definition is_space :: "char \<Rightarrow> bool" where
  "is_space c = (c \<in> set [CHR 0x09, CHR 0x0A, CHR 0x0B, CHR 0x0C, CHR 0x0D,
                            CHR 0x1C, CHR 0x1D, CHR 0x1E, CHR 0x1F, CHR 0x20])"

text \<open>\<^verbatim>\<open>s.rstrip()\<close>: drop the trailing whitespace.\<close>

definition rstrip :: "string \<Rightarrow> string" where
  "rstrip s = rev (dropWhile is_space (rev s))"

text \<open>\<^verbatim>\<open>s.split(sep)\<close> for a one-character separator: never the empty list.\<close>

fun split_on :: "char \<Rightarrow> string \<Rightarrow> string list" where
  "split_on sep [] = [[]]"
| "split_on sep (x # xs) =
     (if x = sep then [] # split_on sep xs
      else (case split_on sep xs of [] \<Rightarrow> [[x]] | w # ws \<Rightarrow> (x # w) # ws))"

text \<open>
  \<^verbatim>\<open>key, path = s.split(':', 1)\<close>: the split at the first colon. Without a colon
  the split has one element and the unpacking raises \<^verbatim>\<open>ValueError\<close>: \<open>None\<close>.
\<close>

definition split_first_colon :: "string \<Rightarrow> (string \<times> string) option" where
  "split_first_colon s =
     (if CHR '':'' \<in> set s
      then Some (takeWhile (\<lambda>c. c \<noteq> CHR '':'') s, tl (dropWhile (\<lambda>c. c \<noteq> CHR '':'') s))
      else None)"

text \<open>\<^verbatim>\<open>sep.join(xs)\<close>.\<close>

fun join_with :: "string \<Rightarrow> string list \<Rightarrow> string" where
  "join_with sep [] = []"
| "join_with sep [x] = x"
| "join_with sep (x # y # ys) = x @ sep @ join_with sep (y # ys)"

text \<open>
  \<^verbatim>\<open>f.readlines()\<close>: the lines of a text, each keeping its newline (texts
  without carriage returns, which the text mode of Python 3 would turn into newlines).
\<close>

fun readlines :: "string \<Rightarrow> string list" where
  "readlines [] = []"
| "readlines (c # cs) =
     (if c = CHR 0x0A then [c] # readlines cs
      else (case readlines cs of [] \<Rightarrow> [[c]] | l # ls \<Rightarrow> (c # l) # ls))"

section \<open>The functions of \<^verbatim>\<open>posixpath\<close> the script calls\<close>

text \<open>\<^verbatim>\<open>basename(p)\<close> is \<^verbatim>\<open>p[p.rfind('/') + 1:]\<close>.\<close>

definition basename :: "string \<Rightarrow> string" where
  "basename p = rev (takeWhile (\<lambda>c. c \<noteq> CHR ''/'') (rev p))"

text \<open>
  \<^verbatim>\<open>dirname(p)\<close>: the head up to and including the last slash, with its trailing
  slashes removed unless it consists of slashes only.
\<close>

definition dirname :: "string \<Rightarrow> string" where
  "dirname p =
     (let head = rev (dropWhile (\<lambda>c. c \<noteq> CHR ''/'') (rev p))
      in if head \<noteq> [] \<and> \<not> (\<forall>c \<in> set head. c = CHR ''/'')
         then rev (dropWhile (\<lambda>c. c = CHR ''/'') (rev head))
         else head)"

definition join :: "string \<Rightarrow> string \<Rightarrow> string" where
  "join a b =
     (if startswith ''/'' b then b
      else if a = [] \<or> endswith ''/'' a then a @ b
      else a @ ''/'' @ b)"

text \<open>
  The loop of \<^verbatim>\<open>normpath\<close> over the components: \<open>ini\<close> says whether the path
  began with a slash, \<open>acc\<close> is \<^verbatim>\<open>new_comps\<close>.
\<close>

fun norm_comps :: "bool \<Rightarrow> string list \<Rightarrow> string list \<Rightarrow> string list" where
  "norm_comps ini acc [] = acc"
| "norm_comps ini acc (c # cs) =
     (if c = [] \<or> c = ''.'' then norm_comps ini acc cs
      else if c \<noteq> ''..'' \<or> (\<not> ini \<and> acc = []) \<or> (acc \<noteq> [] \<and> last acc = ''..'')
           then norm_comps ini (acc @ [c]) cs
      else if acc \<noteq> [] then norm_comps ini (butlast acc) cs
      else norm_comps ini acc cs)"

definition normpath :: "string \<Rightarrow> string" where
  "normpath p =
     (if p = [] then ''.''
      else let ini = (if startswith ''/'' p
                      then (if startswith ''//'' p \<and> \<not> startswith ''///'' p then 2 else 1)
                      else (0::nat));
               q = replicate ini CHR ''/'' @ join_with ''/'' (norm_comps (ini \<noteq> 0) [] (split_on CHR ''/'' p))
           in if q = [] then ''.'' else q)"

text \<open>\<^verbatim>\<open>abspath(p)\<close> in a process whose working directory is \<open>cwd\<close>.\<close>

definition abspath :: "string \<Rightarrow> string \<Rightarrow> string" where
  "abspath cwd p = normpath (join cwd p)"

section \<open>Exceptions, results, events\<close>

text \<open>
  The exceptions that can travel through the script. In Kazoo \<^verbatim>\<open>NoNodeError\<close>
  is a subclass of \<^verbatim>\<open>ZookeeperError\<close>, which is a subclass of
  \<^verbatim>\<open>KazooException\<close>; the constructor \<open>ZookeeperError\<close> stands for the
  instances that are not \<^verbatim>\<open>NoNodeError\<close>, \<open>KazooException\<close> for those that are
  not \<^verbatim>\<open>ZookeeperError\<close>. The string of a Kazoo exception is
  \<^verbatim>\<open>str(e)\<close>.
\<close>

datatype exn =
    NoNodeError string
  | ZookeeperError string
  | KazooException string
  | ValueError
  | IOError
  | TypeError

fun isinstance_NoNodeError :: "exn \<Rightarrow> bool" where
  "isinstance_NoNodeError (NoNodeError m) = True"
| "isinstance_NoNodeError e = False"

fun isinstance_ZookeeperError :: "exn \<Rightarrow> bool" where
  "isinstance_ZookeeperError (NoNodeError m) = True"
| "isinstance_ZookeeperError (ZookeeperError m) = True"
| "isinstance_ZookeeperError e = False"

datatype 'a result = Return 'a | Exit nat | Raise exn

text \<open>
  The observable actions, in the order the script performs them. A call to the Kazoo
  client is recorded with its arguments and, where the script depends on it, with what the
  call gave back (\<open>Inl e\<close> or \<open>Some e\<close>: it raised \<open>e\<close>). File accesses are recorded
  with the working directory of the process at that moment.
\<close>

datatype event =
    Print string
  | Access string string
  | Chdir string
  | Open string string
  | ZkStart "exn option"
  | ZkExists string "exn + bool"
  | ZkEnsurePath string "exn option"
  | ZkSet string "string option" "exn option"
  | ZkGetChildren string
  | ZkCommand string
  | ZkStop
  | ZkClose

section \<open>The tree printer\<close>

definition glyph_corner :: string where
  "glyph_corner = [CHR 0xE2, CHR 0x94, CHR 0x94]"

definition glyph_bar :: string where
  "glyph_bar = [CHR 0xE2, CHR 0x94, CHR 0x80]"

text \<open>\<^verbatim>\<open>s * n\<close> on strings.\<close>

definition str_times :: "string \<Rightarrow> nat \<Rightarrow> string" where
  "str_times s n = concat (replicate n s)"

text \<open>\<^verbatim>\<open>ZNode.show_tree_node\<close>: the line printed for the node \<open>c\<close> at \<open>level\<close>.\<close>

definition show_tree_node :: "nat \<Rightarrow> string \<Rightarrow> string" where
  "show_tree_node level c =
     (if level > 1
      then str_times ''    '' level @ glyph_corner @ str_times glyph_bar level @ '' '' @ basename c
      else if level = 1
      then ''  '' @ (glyph_corner @ glyph_bar @ glyph_bar @ glyph_bar) @ '' '' @ basename c
      else ''.'' @ '' '' @ basename c)"

text \<open>
  What the service answers during one walk. The walk asks \<^verbatim>\<open>zk.get_children\<close>
  once for every node it constructs, so the answers it receives form a finite tree:
  \<open>Children\<close> lists the child names in the order received, each with the answer its own
  node will get; \<open>Fails e\<close> is a call that raises \<open>e\<close>.
\<close>

datatype znodes = Children "(string \<times> znodes) list" | Fails exn

text \<open>
  \<^verbatim>\<open>ZNode.__init__\<close> and its \<^verbatim>\<open>for\<close> loop. The \<^verbatim>\<open>try\<close> encloses the
  call of \<^verbatim>\<open>get_children\<close> and the whole loop, so a \<^verbatim>\<open>NoNodeError\<close> from
  either is caught and the constructor returns.
\<close>

fun ZNode :: "znodes \<Rightarrow> string \<Rightarrow> nat \<Rightarrow> event list \<times> unit result"
and ZNode_children :: "(string \<times> znodes) list \<Rightarrow> string \<Rightarrow> nat \<Rightarrow> event list \<times> unit result"
where
  "ZNode (Fails e) path level =
     ([Print (show_tree_node level path), ZkGetChildren path],
      if isinstance_NoNodeError e then Return () else Raise e)"
| "ZNode (Children cs) path level =
     (case ZNode_children cs path level of
        (evs, Raise e) \<Rightarrow>
          (Print (show_tree_node level path) # ZkGetChildren path # evs,
           if isinstance_NoNodeError e then Return () else Raise e)
      | (evs, r) \<Rightarrow> (Print (show_tree_node level path) # ZkGetChildren path # evs, r))"
| "ZNode_children [] path level = ([], Return ())"
| "ZNode_children ((c, t) # cs) path level =
     (case ZNode t (path @ ''/'' @ c) (level + 1) of
        (evs, Return u) \<Rightarrow>
          (case ZNode_children cs path level of (evs', r) \<Rightarrow> (evs @ evs', r))
      | (evs, r) \<Rightarrow> (evs, r))"

section \<open>The environment and the program state\<close>

text \<open>
  What the script cannot decide by itself is a parameter. The file system answers
  \<^verbatim>\<open>access(f, R_OK)\<close> and \<^verbatim>\<open>open(f).read()\<close> for a working directory and a
  path as given (\<open>None\<close>: \<^verbatim>\<open>open\<close> raises \<^verbatim>\<open>IOError\<close>); it does not change
  during a run and has no symbolic links, so that \<^verbatim>\<open>chdir(dirname(abspath(f)))\<close>
  leaves the process in the directory that \<open>dirname\<close> and \<open>abspath\<close> compute.
  \<open>json_canon\<close> is \<^verbatim>\<open>dumps(loads(j), sort_keys=True, indent=4, separators=(',', ': '))\<close>,
  \<open>None\<close> when \<^verbatim>\<open>loads\<close> raises \<^verbatim>\<open>ValueError\<close>. The service answers each call
  of the client; the first argument of an answer is the number of events recorded before the
  call, so the same call may be answered differently at different moments of a run.
\<close>

record world =
  os_access :: "string \<Rightarrow> string \<Rightarrow> bool"
  os_read :: "string \<Rightarrow> string \<Rightarrow> string option"
  json_canon :: "string \<Rightarrow> string option"
  zk_start :: "exn option"
  zk_exists :: "nat \<Rightarrow> string \<Rightarrow> exn + bool"
  zk_ensure_path :: "nat \<Rightarrow> string \<Rightarrow> exn option"
  zk_set :: "nat \<Rightarrow> string \<Rightarrow> string option \<Rightarrow> exn option"
  zk_command :: "nat \<Rightarrow> string \<Rightarrow> exn + string"

text \<open>
  The mutable state: the working directory, the trace, the attributes of the global
  \<^verbatim>\<open>args\<close> that the commands read or write (\<open>args_value\<close> is the attribute
  \<^verbatim>\<open>args.value\<close>, which \<^verbatim>\<open>argparse\<close> never creates), whether the global
  \<^verbatim>\<open>zk\<close> exists, and \<^verbatim>\<open>zk.connected\<close>.
\<close>

record state =
  cwd :: string
  trace :: "event list"
  args_znode :: "string option"
  args_values :: "string option"
  args_value :: "string option"
  args_input :: "string option"
  zk_defined :: bool
  connected :: bool

definition emit :: "event \<Rightarrow> state \<Rightarrow> state" where
  "emit e s = s\<lparr>trace := trace s @ [e]\<rparr>"

text \<open>The events a run added to the trace it started with.\<close>

definition events_since :: "state \<Rightarrow> state \<Rightarrow> event list" where
  "events_since s s' = drop (length (trace s)) (trace s')"

text \<open>\<^verbatim>\<open>not opt\<close> for an option of \<^verbatim>\<open>argparse\<close>: absent or the empty string.\<close>

fun falsy :: "string option \<Rightarrow> bool" where
  "falsy None = True"
| "falsy (Some v) = (v = [])"

section \<open>Helpers of the script\<close>

definition check_json :: "world \<Rightarrow> string \<Rightarrow> string result" where
  "check_json w j = (case json_canon w j of None \<Rightarrow> Raise ValueError | Some d \<Rightarrow> Return d)"

definition read_json_from_file :: "world \<Rightarrow> string \<Rightarrow> string result" where
  "read_json_from_file w text = check_json w (rstrip text)"

definition set_up :: "world \<Rightarrow> state \<Rightarrow> state \<times> unit result" where
  "set_up w s =
     (case zk_start w of
        Some e \<Rightarrow> (emit (ZkStart (Some e)) (s\<lparr>zk_defined := True\<rparr>), Raise e)
      | None \<Rightarrow> (emit (ZkStart None) (s\<lparr>zk_defined := True, connected := True\<rparr>), Return ()))"

definition tear_down :: "nat \<Rightarrow> state \<Rightarrow> state \<times> unit result" where
  "tear_down code s =
     (if zk_defined s \<and> connected s
      then (emit ZkClose (emit ZkStop s)\<lparr>connected := False\<rparr>, Exit code)
      else (s, Exit code))"

definition check_option :: "string option \<Rightarrow> string \<Rightarrow> state \<Rightarrow> state \<times> unit result" where
  "check_option opt message s =
     (if falsy opt then tear_down 1 (emit (Print message) s) else (s, Return ()))"

definition cannot_access :: string where
  "cannot_access = ''Can'' @ [CHR 0x27] @ ''t access or open file ''"

definition check_file :: "world \<Rightarrow> string \<Rightarrow> state \<Rightarrow> state \<times> string result" where
  "check_file w f s =
     (if \<not> os_access w (cwd s) f
      then (emit (Print (cannot_access @ f)) (emit (Access (cwd s) f) s), Exit 1)
      else (emit (Chdir (dirname (abspath (cwd s) f))) (emit (Access (cwd s) f) s)
              \<lparr>cwd := dirname (abspath (cwd s) f)\<rparr>,
            Return (basename f)))"

section \<open>Status\<close>

definition cmd_status :: "world \<Rightarrow> state \<Rightarrow> state \<times> unit result" where
  "cmd_status w s =
     (case zk_command w (length (trace s)) ''ruok'' of
        Inl e \<Rightarrow> (emit (ZkCommand ''ruok'') s, Raise e)
      | Inr ret \<Rightarrow>
          if sublist ''imok'' ret
          then (emit (Print ''OK'') (emit (ZkCommand ''ruok'') s), Exit 0)
          else (emit (Print (''WARN - Server replied : '' @ ret)) (emit (ZkCommand ''ruok'') s),
                Exit 1))"

section \<open>Create and set\<close>

definition error_report :: "string \<Rightarrow> string" where
  "error_report m =
     ''Error during creation/insertion of keys/values.'' @ [CHR 0x0A]
     @ ''            Full error follows : '' @ [CHR 0x0A] @ '' '' @ m"

text \<open>The call \<^verbatim>\<open>zk.set(args.znode, args.values)\<close> that ends the \<^verbatim>\<open>try\<close> block.\<close>

definition call_set :: "world \<Rightarrow> string \<Rightarrow> state \<Rightarrow> state \<times> unit result" where
  "call_set w z s =
     (case zk_set w (length (trace s)) z (args_values s) of
        Some e \<Rightarrow> (emit (ZkSet z (args_values s) (Some e)) s, Raise e)
      | None \<Rightarrow> (emit (ZkSet z (args_values s) None) s, Return ()))"

text \<open>
  The \<^verbatim>\<open>try\<close> block of \<^verbatim>\<open>create_and_set\<close>. The client refuses a path
  that is not a string with \<^verbatim>\<open>TypeError\<close> before it contacts the service.
\<close>

definition create_and_set_try :: "world \<Rightarrow> state \<Rightarrow> state \<times> unit result" where
  "create_and_set_try w s =
     (case args_znode s of
        None \<Rightarrow> (s, Raise TypeError)
      | Some z \<Rightarrow>
          (case zk_exists w (length (trace s)) z of
             Inl e \<Rightarrow> (emit (ZkExists z (Inl e)) s, Raise e)
           | Inr b \<Rightarrow>
               if \<not> b
               then (let s1 = emit (Print (''Creating znode '' @ z)) (emit (ZkExists z (Inr b)) s)
                     in case zk_ensure_path w (length (trace s1)) z of
                          Some e \<Rightarrow> (emit (ZkEnsurePath z (Some e)) s1, Raise e)
                        | None \<Rightarrow> call_set w z (emit (ZkEnsurePath z None) s1))
               else call_set w z (emit (ZkExists z (Inr b)) s)))"

text \<open>\<^verbatim>\<open>create_and_set\<close>: the block with its handler \<^verbatim>\<open>except ZookeeperError as e\<close>.\<close>

definition create_and_set :: "world \<Rightarrow> state \<Rightarrow> state \<times> unit result" where
  "create_and_set w s =
     (case create_and_set_try w s of
        (s', Raise (NoNodeError m)) \<Rightarrow> (emit (Print (error_report m)) s', Return ())
      | (s', Raise (ZookeeperError m)) \<Rightarrow> (emit (Print (error_report m)) s', Return ())
      | (s', r) \<Rightarrow> (s', r))"

section \<open>Set\<close>

definition quoted_Set :: string where
  "quoted_Set = [CHR 0x27] @ ''Set'' @ [CHR 0x27]"

definition cmd_set :: "world \<Rightarrow> state \<Rightarrow> state \<times> unit result" where
  "cmd_set w s =
     (if falsy (args_input s) \<and> falsy (args_values s)
      then tear_down 1
             (emit (Print (quoted_Set @ '' action needs option --input or --values positionned.'')) s)
      else (case check_option (args_znode s)
                   (quoted_Set @ '' action needs --znode (or -z) positionned.'') s of
              (s1, Return u) \<Rightarrow>
                (case args_input s1 of
                   None \<Rightarrow> create_and_set w s1
                 | Some f \<Rightarrow>
                     if f = [] then create_and_set w s1
                     else (case os_read w (cwd s1) f of
                             None \<Rightarrow> (emit (Open (cwd s1) f) s1, Raise IOError)
                           | Some text \<Rightarrow>
                               (case read_json_from_file w text of
                                  Return v \<Rightarrow>
                                    create_and_set w ((emit (Open (cwd s1) f) s1)\<lparr>args_value := Some v\<rparr>)
                                | Exit c \<Rightarrow> (emit (Open (cwd s1) f) s1, Exit c)
                                | Raise e \<Rightarrow> (emit (Open (cwd s1) f) s1, Raise e))))
            | (s1, r) \<Rightarrow> (s1, r)))"

section \<open>Deploy\<close>

text \<open>The body of the first loop of \<^verbatim>\<open>cmd_deploy\<close> for one line.\<close>

definition deploy_check_line :: "world \<Rightarrow> string \<Rightarrow> state \<Rightarrow> state \<times> unit result" where
  "deploy_check_line w l s =
     (if startswith ''#'' l then (s, Return ())
      else (case split_first_colon (rstrip l) of
              None \<Rightarrow> (s, Raise ValueError)
            | Some (key, path) \<Rightarrow>
                (case check_file w path s of
                   (s', Return b) \<Rightarrow> (s', Return ())
                 | (s', Exit c) \<Rightarrow> (s', Exit c)
                 | (s', Raise e) \<Rightarrow> (s', Raise e))))"

fun deploy_check :: "world \<Rightarrow> string list \<Rightarrow> state \<Rightarrow> state \<times> unit result" where
  "deploy_check w [] s = (s, Return ())"
| "deploy_check w (l # ls) s =
     (case deploy_check_line w l s of
        (s', Return u) \<Rightarrow> deploy_check w ls s'
      | (s', r) \<Rightarrow> (s', r))"

text \<open>The body of the second loop for one line.\<close>

definition deploy_commit_line :: "world \<Rightarrow> string \<Rightarrow> state \<Rightarrow> state \<times> unit result" where
  "deploy_commit_line w l s =
     (if startswith ''#'' l then (s, Return ())
      else (case split_first_colon (rstrip l) of
              None \<Rightarrow> (s, Raise ValueError)
            | Some (key, path) \<Rightarrow>
                (case os_read w (cwd s) path of
                   None \<Rightarrow> (emit (Open (cwd s) path) s, Raise IOError)
                 | Some text \<Rightarrow>
                     (case read_json_from_file w text of
                        Return v \<Rightarrow>
                          create_and_set w
                            ((emit (Open (cwd s) path) s)\<lparr>args_values := Some v, args_znode := Some key\<rparr>)
                      | Exit c \<Rightarrow> (emit (Open (cwd s) path) s, Exit c)
                      | Raise e \<Rightarrow> (emit (Open (cwd s) path) s, Raise e)))))"

fun deploy_commit :: "world \<Rightarrow> string list \<Rightarrow> state \<Rightarrow> state \<times> unit result" where
  "deploy_commit w [] s = (s, Return ())"
| "deploy_commit w (l # ls) s =
     (case deploy_commit_line w l s of
        (s', Return u) \<Rightarrow> deploy_commit w ls s'
      | (s', r) \<Rightarrow> (s', r))"

text \<open>
  \<^verbatim>\<open>cmd_deploy\<close>: the option check, the opening of the mapping file, the two
  loops over the same lines (\<^verbatim>\<open>f.seek(0)\<close> between them).
\<close>

definition cmd_deploy :: "world \<Rightarrow> state \<Rightarrow> state \<times> unit result" where
  "cmd_deploy w s =
     (case check_option (args_input s) ''Deploy action needs an input file (-i or --input)'' s of
        (s1, Return u) \<Rightarrow>
          (case args_input s1 of
             None \<Rightarrow> (s1, Raise TypeError)
           | Some f \<Rightarrow>
               (case os_read w (cwd s1) f of
                  None \<Rightarrow> (emit (Open (cwd s1) f) s1, Raise IOError)
                | Some text \<Rightarrow>
                    (case deploy_check w (readlines text) (emit (Open (cwd s1) f) s1) of
                       (s2, Return u) \<Rightarrow> deploy_commit w (readlines text) s2
                     | (s2, r) \<Rightarrow> (s2, r))))
      | (s1, r) \<Rightarrow> (s1, r))"

section \<open>Tree and the main flow\<close>

definition cmd_tree :: "znodes \<Rightarrow> state \<Rightarrow> state \<times> unit result" where
  "cmd_tree t s =
     (let s1 = (if falsy (args_znode s) then s\<lparr>args_znode := Some ''/''\<rparr> else s)
      in case args_znode s1 of
           None \<Rightarrow> (s1, Raise TypeError)
         | Some z \<Rightarrow> (case ZNode t z 0 of (evs, r) \<Rightarrow> (s1\<lparr>trace := trace s1 @ evs\<rparr>, r)))"

text \<open>
  \<^verbatim>\<open>main\<close> after the arguments are parsed: \<^verbatim>\<open>set_up()\<close>, the command that the
  chain of tests on \<^verbatim>\<open>args.action\<close> selects, \<^verbatim>\<open>tear_down(0)\<close>. A command that
  exits or raises ends the process there: \<^verbatim>\<open>main\<close> has no handler. The two
  calls of \<^verbatim>\<open>signal\<close> only register handlers; the delivery of a signal is
  asynchronous and has no place in this sequential model.
\<close>

definition main :: "world \<Rightarrow> (state \<Rightarrow> state \<times> unit result) \<Rightarrow> state \<Rightarrow> state \<times> unit result" where
  "main w cmd s =
     (case set_up w s of
        (s1, Return u) \<Rightarrow>
          (case cmd s1 of
             (s2, Return u) \<Rightarrow> tear_down 0 s2
           | (s2, r) \<Rightarrow> (s2, r))
      | (s1, r) \<Rightarrow> (s1, r))"

section \<open>Notions used to state the properties\<close>

text \<open>
  The line the specification describes for a node called \<open>name\<close> at depth \<open>d\<close>, with
  \<open>glyph\<close> as its tree-branch glyph: at depth two and more, four spaces \<open>d\<close> times, the
  glyph \<open>d\<close> times, a space, the name.
\<close>

definition spec_render_line :: "string \<Rightarrow> nat \<Rightarrow> string \<Rightarrow> string" where
  "spec_render_line glyph d name =
     (if d = 0 then ''. '' @ name
      else if d = 1 then ''  '' @ glyph_corner @ glyph_bar @ glyph_bar @ glyph_bar @ '' '' @ name
      else str_times ''    '' d @ str_times glyph d @ '' '' @ name)"

text \<open>The answers of a walk in which every \<^verbatim>\<open>NoNodeError\<close> is replaced by "no child".\<close>

fun swallow :: "znodes \<Rightarrow> znodes" where
  "swallow (Fails e) = (if isinstance_NoNodeError e then Children [] else Fails e)"
| "swallow (Children cs) = Children (map (\<lambda>(c, t). (c, swallow t)) cs)"

text \<open>The first answer, in pre-order, that raises something else than \<^verbatim>\<open>NoNodeError\<close>.\<close>

fun first_fatal :: "znodes \<Rightarrow> exn option"
and first_fatal_list :: "(string \<times> znodes) list \<Rightarrow> exn option" where
  "first_fatal (Fails e) = (if isinstance_NoNodeError e then None else Some e)"
| "first_fatal (Children cs) = first_fatal_list cs"
| "first_fatal_list [] = None"
| "first_fatal_list ((c, t) # cs) =
     (case first_fatal t of Some e \<Rightarrow> Some e | None \<Rightarrow> first_fatal_list cs)"

text \<open>The sources that \<^verbatim>\<open>check_file\<close> looked at, in order.\<close>

fun checked_sources :: "event list \<Rightarrow> string list" where
  "checked_sources [] = []"
| "checked_sources (Access d p # es) = p # checked_sources es"
| "checked_sources (e # es) = checked_sources es"

text \<open>The entries of a mapping: the lines that are not comments and have a colon.\<close>

fun entries :: "string list \<Rightarrow> (string \<times> string) list" where
  "entries [] = []"
| "entries (l # ls) =
     (if startswith ''#'' l then entries ls
      else (case split_first_colon (rstrip l) of
              None \<Rightarrow> entries ls
            | Some kp \<Rightarrow> kp # entries ls))"

text \<open>
  A line is a comment, or an entry whose source can be opened from the directory \<open>d\<close> and
  holds a text that \<^verbatim>\<open>loads\<close> accepts.
\<close>

definition payload_ok :: "world \<Rightarrow> string \<Rightarrow> string \<Rightarrow> bool" where
  "payload_ok w d l =
     (startswith ''#'' l \<or>
      (case split_first_colon (rstrip l) of
         None \<Rightarrow> False
       | Some (key, path) \<Rightarrow>
           (case os_read w d path of
              None \<Rightarrow> False
            | Some text \<Rightarrow> json_canon w (rstrip text) \<noteq> None)))"

text \<open>Reading a trace: the values that \<open>f\<close> finds in its events, in order.\<close>

definition pick :: "('a \<Rightarrow> 'b option) \<Rightarrow> 'a list \<Rightarrow> 'b list" where
  "pick f xs = concat (map (\<lambda>x. case f x of None \<Rightarrow> [] | Some y \<Rightarrow> [y]) xs)"

text \<open>The node on which \<^verbatim>\<open>create_and_set\<close> starts to work.\<close>

fun attempted :: "event \<Rightarrow> string option" where
  "attempted (ZkExists z r) = Some z"
| "attempted e = None"

text \<open>A \<^verbatim>\<open>set\<close> that the service accepted: the node and the payload.\<close>

fun applied :: "event \<Rightarrow> (string \<times> string option) option" where
  "applied (ZkSet z v None) = Some (z, v)"
| "applied e = None"

text \<open>
  Example environments: a file system given by its readable files (absolute path and
  content), the part of \<^verbatim>\<open>json\<close> the examples need (\<^verbatim>\<open>loads\<close> accepts
  \<^verbatim>\<open>{}\<close>, which \<^verbatim>\<open>dumps\<close> prints as \<^verbatim>\<open>{}\<close>, and rejects the other texts
  used), a service on which no node exists yet and which raises \<open>rejected p\<close> when asked to
  set the node \<open>p\<close>, and a health probe answered by \<open>probe\<close>.
\<close>

definition example_json :: "string \<Rightarrow> string option" where
  "example_json j = (if j = ''{}'' then Some ''{}'' else None)"

definition example_world ::
  "(string \<times> string) list \<Rightarrow> (string \<Rightarrow> exn option) \<Rightarrow> string \<Rightarrow> world" where
  "example_world files rejected probe =
     \<lparr>os_access = (\<lambda>d p. p \<noteq> [] \<and> map_of files (abspath d p) \<noteq> None),
      os_read = (\<lambda>d p. if p = [] then None else map_of files (abspath d p)),
      json_canon = example_json,
      zk_start = None,
      zk_exists = (\<lambda>t p. Inr False),
      zk_ensure_path = (\<lambda>t p. None),
      zk_set = (\<lambda>t p v. rejected p),
      zk_command = (\<lambda>t c. Inr probe)\<rparr>"

text \<open>
  The state in which \<^verbatim>\<open>main\<close> calls a command after
  \<^verbatim>\<open>--input /m/map.txt\<close>: \<^verbatim>\<open>check_file\<close> has moved the process to
  \<^verbatim>\<open>/m\<close> and kept the base name; the client is connected.
\<close>

definition example_state :: state where
  "example_state =
     \<lparr>cwd = ''/m'', trace = [], args_znode = None, args_values = None, args_value = None,
      args_input = Some ''map.txt'', zk_defined = True, connected = True\<rparr>"

definition line :: "string \<Rightarrow> string" where
  "line l = l @ [CHR 0x0A]"

text \<open>
  Example mappings, all in the file \<^verbatim>\<open>/m/map.txt\<close>: two missing sources; a missing
  source between two readable ones; a payload that is not JSON before a valid one, and between
  two valid ones; three valid entries of which the service refuses the second; one source in
  a subdirectory, alone and before a source that lies beside the mapping.
\<close>

definition ex_two_missing :: world where
  "ex_two_missing = example_world
     [(''/m/map.txt'', line ''/a:missing1.json'' @ line ''/b:missing2.json'')]
     (\<lambda>p. None) ''imok''"

definition ex_missing_middle :: world where
  "ex_missing_middle = example_world
     [(''/m/map.txt'', line ''/a:x.json'' @ line ''/b:missing.json'' @ line ''/c:x.json''),
      (''/m/x.json'', ''{}'')]
     (\<lambda>p. None) ''imok''"

definition ex_invalid_first :: world where
  "ex_invalid_first = example_world
     [(''/m/map.txt'', line ''/a:bad.json'' @ line ''/b:good.json''),
      (''/m/bad.json'', ''oops''), (''/m/good.json'', ''{}'')]
     (\<lambda>p. None) ''imok''"

definition ex_invalid_middle :: world where
  "ex_invalid_middle = example_world
     [(''/m/map.txt'', line ''/a:good.json'' @ line ''/b:bad.json'' @ line ''/c:good.json''),
      (''/m/bad.json'', ''oops''), (''/m/good.json'', ''{}'')]
     (\<lambda>p. None) ''imok''"


definition ex_subdir :: world where
  "ex_subdir = example_world
     [(''/m/map.txt'', line ''/a:sub/x.json''), (''/m/sub/x.json'', ''{}'')]
     (\<lambda>p. None) ''imok''"

definition ex_after_subdir :: world where
  "ex_after_subdir = example_world
     [(''/m/map.txt'', line ''/a:sub/x.json'' @ line ''/b:y.json''),
      (''/m/sub/x.json'', ''{}''), (''/m/y.json'', ''{}'')]
     (\<lambda>p. None) ''imok''"

text \<open>
  Two mappings whose first source lies in the subdirectory \<^verbatim>\<open>/m/sub\<close> and whose
  second source \<^verbatim>\<open>y.json\<close> is named beside the mapping. In the first,
  \<^verbatim>\<open>/m/y.json\<close> does not exist, while \<^verbatim>\<open>/m/sub\<close> holds a
  \<^verbatim>\<open>y.json\<close> and a \<^verbatim>\<open>sub/x.json\<close> of its own. In the second, both sources
  are valid where the mapping names them, \<^verbatim>\<open>/m/sub\<close> holds a \<^verbatim>\<open>y.json\<close>
  that is not JSON and a \<^verbatim>\<open>sub/x.json\<close> of its own, and the service refuses to set
  the first node.
\<close>

definition ex_missing_beside :: world where
  "ex_missing_beside = example_world
     [(''/m/map.txt'', line ''/a:sub/x.json'' @ line ''/b:y.json''),
      (''/m/sub/x.json'', ''{}''), (''/m/sub/y.json'', ''{}''), (''/m/sub/sub/x.json'', ''{}'')]
     (\<lambda>p. None) ''imok''"


text \<open>
  A mapping whose second source \<^verbatim>\<open>/m/dir\<close> is a directory: \<^verbatim>\<open>access\<close>
  accepts it, \<^verbatim>\<open>open\<close> raises.
\<close>

definition ex_source_is_directory :: world where
  "ex_source_is_directory =
     (example_world
        [(''/m/map.txt'', line ''/a:x.json'' @ line ''/b:dir''), (''/m/x.json'', ''{}'')]
        (\<lambda>p. None) ''imok'')
     \<lparr>os_access := (\<lambda>d p. p \<noteq> [] \<and> abspath d p \<in> set [''/m/map.txt'', ''/m/x.json'', ''/m/dir''])\<rparr>"

text \<open>The state in which \<^verbatim>\<open>main\<close> starts: no client yet.\<close>

definition initial_state :: state where
  "initial_state =
     \<lparr>cwd = ''/m'', trace = [], args_znode = None, args_values = None, args_value = None,
      args_input = None, zk_defined = False, connected = False\<rparr>"

text \<open>The payload that a call of \<^verbatim>\<open>zk.set\<close> passes to the service.\<close>

fun set_payload :: "event \<Rightarrow> string option option" where
  "set_payload (ZkSet p v r) = Some v"
| "set_payload e = None"

section \<open>Basic facts\<close>

lemma emit_simps [simp]:
  "trace (emit e s) = trace s @ [e]"
  "cwd (emit e s) = cwd s"
  "args_znode (emit e s) = args_znode s"
  "args_values (emit e s) = args_values s"
  "args_value (emit e s) = args_value s"
  "args_input (emit e s) = args_input s"
  "zk_defined (emit e s) = zk_defined s"
  "connected (emit e s) = connected s"
  by (simp_all add: emit_def)

lemma split_on_nonempty: "split_on sep s \<noteq> []"
  by (induction s) (auto split: list.splits)

lemma split_on_no_sep: "sep \<notin> set s \<Longrightarrow> split_on sep s = [s]"
  by (induction s) auto

lemma split_on_sep_length: "sep \<in> set s \<Longrightarrow> 2 \<le> length (split_on sep s)"
proof (induction s)
  case Nil
  then show ?case by simp
next
  case (Cons x xs)
  then show ?case
    using split_on_nonempty[of sep xs]
    by (cases "split_on sep xs") (auto split: list.splits)
qed

lemma last_split_on: "last (split_on sep s) = rev (takeWhile (\<lambda>c. c \<noteq> sep) (rev s))"
proof (induction s)
  case Nil
  then show ?case by simp
next
  case (Cons x xs)
  show ?case
  proof (cases "x = sep")
    case True
    then show ?thesis
      using Cons split_on_nonempty[of sep xs] by (simp add: takeWhile_tail)
  next
    case False
    show ?thesis
    proof (cases "sep \<in> set xs")
      case True
      then obtain w v vs where ws: "split_on sep xs = w # v # vs"
        using split_on_sep_length[of sep xs]
        by (cases "split_on sep xs"; cases "tl (split_on sep xs)") auto
      have "takeWhile (\<lambda>c. c \<noteq> sep) (rev xs @ [x]) = takeWhile (\<lambda>c. c \<noteq> sep) (rev xs)"
        using True by (intro takeWhile_append1[of sep]) auto
      then show ?thesis using Cons False ws by simp
    next
      case nosep: False
      have all: "\<forall>c\<in>set (rev (x # xs)). c \<noteq> sep"
        using False nosep by auto
      have "takeWhile (\<lambda>c. c \<noteq> sep) (rev (x # xs)) = rev (x # xs)"
        using all by (simp only: takeWhile_eq_all_conv)
      then have "rev (takeWhile (\<lambda>c. c \<noteq> sep) (rev (x # xs))) = x # xs"
        by (simp only: rev_rev_ident)
      moreover have "last (split_on sep (x # xs)) = x # xs"
        using False nosep by (simp add: split_on_no_sep)
      ultimately show ?thesis by (simp only:)
    qed
  qed
qed

text \<open>\<^verbatim>\<open>basename\<close> gives the last segment of a slash-delimited path.\<close>

lemma basename_last_segment: "basename p = last (split_on CHR ''/'' p)"
  by (simp add: basename_def last_split_on)

lemma str_times_spaces: "str_times ''    '' d = replicate (4 * d) CHR '' ''"
proof (induction d)
  case 0
  then show ?case by (simp add: str_times_def)
next
  case (Suc d)
  have "replicate (4 + 4 * d) CHR '' '' = replicate 4 CHR '' '' @ replicate (4 * d) CHR '' ''"
    by (rule replicate_add)
  also have "replicate 4 CHR '' '' = ''    ''"
    by (simp add: numeral_eq_Suc)
  finally show ?case using Suc by (simp add: str_times_def)
qed

section \<open>The lines of the tree\<close>

text \<open>
  C4, as the code has it. The line of a node is \<open>". name"\<close> at depth 0, two spaces, a corner
  glyph, three bar glyphs, a space and the name at depth 1, and at every depth \<open>d\<close> of two or
  more: \<open>4 * d\<close> spaces, ONE corner glyph, the bar glyph \<open>d\<close> times, a space and the name;
  the name is the last segment of the path. Every visit of a node begins by printing that
  line.
\<close>

theorem show_tree_node_format:
  "show_tree_node 0 p = ''. '' @ last (split_on CHR ''/'' p) \<and>
   show_tree_node 1 p =
     ''  '' @ glyph_corner @ glyph_bar @ glyph_bar @ glyph_bar @ '' '' @ last (split_on CHR ''/'' p) \<and>
   (2 \<le> d \<longrightarrow> show_tree_node d p =
     replicate (4 * d) CHR '' '' @ glyph_corner @ concat (replicate d glyph_bar)
       @ '' '' @ last (split_on CHR ''/'' p)) \<and>
   hd (fst (ZNode t p d)) = Print (show_tree_node d p)"
proof -
  have "hd (fst (ZNode t p d)) = Print (show_tree_node d p)"
    by (cases t) (simp_all split: prod.splits result.splits)
  then show ?thesis
    using str_times_spaces[of d]
    by (simp add: show_tree_node_def basename_last_segment str_times_def)
qed

text \<open>C4, the theorem at depth 2 for the path \<^verbatim>\<open>/a/b/c\<close>.\<close>

theorem show_tree_node_format_witness:
  "(2::nat) \<le> 2 \<and>
   show_tree_node 2 ''/a/b/c'' = ''        '' @ glyph_corner @ glyph_bar @ glyph_bar @ '' c''"
proof -
  have "replicate (4 * 2) CHR '' '' = ''        ''"
    by (simp add: numeral_eq_Suc)
  moreover have "concat (replicate 2 glyph_bar) = glyph_bar @ glyph_bar"
    by (simp add: numeral_eq_Suc)
  moreover have "last (split_on CHR ''/'' ''/a/b/c'') = ''c''"
    by simp
  ultimately show ?thesis
    using show_tree_node_format[of "''/a/b/c''" 2] by simp
qed

text \<open>
  C4 as stated fails: at depth 2 the printed line is neither the specification's line with
  the corner as the repeated glyph nor the one with the bar.
\<close>

theorem show_tree_node_counterexample:
  "show_tree_node 2 ''/a/b/c'' \<noteq> spec_render_line glyph_corner 2 ''c'' \<and>
   show_tree_node 2 ''/a/b/c'' \<noteq> spec_render_line glyph_bar 2 ''c''"
  by (simp add: show_tree_node_def spec_render_line_def str_times_def basename_def
        glyph_corner_def glyph_bar_def numeral_eq_Suc)

section \<open>Failures during the walk\<close>

lemma first_fatal_not_NoNode:
  "first_fatal t = Some e \<Longrightarrow> \<not> isinstance_NoNodeError e"
  "first_fatal_list cs = Some e \<Longrightarrow> \<not> isinstance_NoNodeError e"
  by (induction t and cs rule: first_fatal_first_fatal_list.induct)
     (auto split: if_splits option.splits)

lemma ZNode_result:
  "snd (ZNode t p l) = (case first_fatal t of None \<Rightarrow> Return () | Some e \<Rightarrow> Raise e)"
  "snd (ZNode_children cs p l) =
     (case first_fatal_list cs of None \<Rightarrow> Return () | Some e \<Rightarrow> Raise e)"
  by (induction t p l and cs p l rule: ZNode_ZNode_children.induct)
     (auto split: prod.splits result.splits if_splits option.splits dest: first_fatal_not_NoNode)

lemma ZNode_swallow:
  "ZNode (swallow t) p l = ZNode t p l"
  "ZNode_children (map (\<lambda>(c, t). (c, swallow t)) cs) p l = ZNode_children cs p l"
  by (induction t p l and cs p l rule: ZNode_ZNode_children.induct)
     (auto split: prod.splits result.splits if_splits option.splits)

lemma ZNode_children_abort:
  "first_fatal_list pre \<noteq> None \<Longrightarrow> ZNode_children (pre @ post) p l = ZNode_children pre p l"
proof (induction pre)
  case Nil
  then show ?case by simp
next
  case (Cons ct pre)
  obtain c t where ct: "ct = (c, t)" by (cases ct)
  show ?case
  proof (cases "first_fatal t")
    case None
    then have "first_fatal_list pre \<noteq> None" using Cons.prems ct by simp
    then show ?thesis using Cons.IH ct by (simp split: prod.splits result.splits)
  next
    case (Some e)
    then have "snd (ZNode t (p @ ''/'' @ c) (l + 1)) = Raise e"
      by (simp add: ZNode_result)
    then show ?thesis using ct by (auto split: prod.splits result.splits)
  qed
qed

text \<open>
  C5. A \<^verbatim>\<open>NoNodeError\<close> raised while the children of a node are enumerated is
  swallowed: the walk is the walk over the answers in which that node has no child, lines and
  result alike, so the traversal goes on with the siblings. Any other error of the client is
  fatal: the walk ends with the first such error in pre-order, uncaught, and returns normally
  only when there is none; the siblings that follow the failing subtree are not visited.
\<close>

theorem tree_failure_semantics:
  "ZNode (swallow t) p l = ZNode t p l \<and>
   snd (ZNode t p l) = (case first_fatal t of None \<Rightarrow> Return () | Some e \<Rightarrow> Raise e) \<and>
   (first_fatal_list pre \<noteq> None \<longrightarrow>
      ZNode (Children (pre @ post)) p l = ZNode (Children pre) p l)"
  by (simp add: ZNode_swallow ZNode_result ZNode_children_abort)

text \<open>
  C5 on a root with three children: the first vanished (swallowed, the walk goes on), the
  second meets a connection loss (fatal), the third is never visited.
\<close>

theorem tree_failure_semantics_witness:
  "first_fatal_list [(''a'', Fails (NoNodeError [])), (''d'', Fails (ZookeeperError ''loss''))] \<noteq> None \<and>
   ZNode (Children ([(''a'', Fails (NoNodeError [])), (''d'', Fails (ZookeeperError ''loss''))]
                     @ [(''e'', Children [])])) ''/r'' 0
   = ([Print ''. r'', ZkGetChildren ''/r'',
       Print (''  '' @ glyph_corner @ glyph_bar @ glyph_bar @ glyph_bar @ '' a''), ZkGetChildren ''/r/a'',
       Print (''  '' @ glyph_corner @ glyph_bar @ glyph_bar @ glyph_bar @ '' d''), ZkGetChildren ''/r/d''],
      Raise (ZookeeperError ''loss''))"
proof -
  have h: "first_fatal_list [(''a'', Fails (NoNodeError [])), (''d'', Fails (ZookeeperError ''loss''))] \<noteq> None"
    by simp
  have "ZNode (Children [(''a'', Fails (NoNodeError [])), (''d'', Fails (ZookeeperError ''loss''))]) ''/r'' 0
    = ([Print ''. r'', ZkGetChildren ''/r'',
       Print (''  '' @ glyph_corner @ glyph_bar @ glyph_bar @ glyph_bar @ '' a''), ZkGetChildren ''/r/a'',
       Print (''  '' @ glyph_corner @ glyph_bar @ glyph_bar @ glyph_bar @ '' d''), ZkGetChildren ''/r/d''],
      Raise (ZookeeperError ''loss''))"
    by (simp add: show_tree_node_def basename_def)
  then show ?thesis
    using tree_failure_semantics[of "Children []" "''/r''" 0
            "[(''a'', Fails (NoNodeError [])), (''d'', Fails (ZookeeperError ''loss''))]"
            "[(''e'', Children [])]"] h
    by simp
qed

section \<open>The first loop of deploy\<close>

lemma checked_sources_append:
  "checked_sources (xs @ ys) = checked_sources xs @ checked_sources ys"
  by (induction xs rule: checked_sources.induct) simp_all

lemma entries_append: "entries (xs @ ys) = entries xs @ entries ys"
  by (induction xs) (auto split: option.splits)

lemma deploy_check_append:
  "deploy_check w (pre @ ls) s =
     (case deploy_check w pre s of (s1, Return u) \<Rightarrow> deploy_check w ls s1 | (s1, r) \<Rightarrow> (s1, r))"
  by (induction pre arbitrary: s) (auto split: prod.splits result.splits)

lemma deploy_check_line_sources:
  "deploy_check_line w l s = (s', Return u) \<Longrightarrow>
     checked_sources (trace s') = checked_sources (trace s) @ map snd (entries [l])"
  by (auto simp: deploy_check_line_def check_file_def checked_sources_append
           split: option.splits prod.splits if_splits)

lemma deploy_check_sources:
  "deploy_check w ls s = (s', Return u) \<Longrightarrow>
     checked_sources (trace s') = checked_sources (trace s) @ map snd (entries ls)"
proof (induction ls arbitrary: s)
  case Nil
  then show ?case by simp
next
  case (Cons l ls)
  obtain s1 r where step: "deploy_check_line w l s = (s1, r)" by (cases "deploy_check_line w l s")
  with Cons.prems have r: "r = Return ()" and rest: "deploy_check w ls s1 = (s', Return u)"
    by (cases r; simp)+
  have "entries (l # ls) = entries [l] @ entries ls"
    using entries_append[of "[l]" ls] by simp
  then show ?case
    using deploy_check_line_sources[OF step[unfolded r]] Cons.IH[OF rest] by simp
qed

text \<open>
  C3, as the code has it. The first loop looks at the sources in file order up to and
  including the first unreadable one, prints the report for that one and exits with code 1
  (\<^verbatim>\<open>check_file\<close> leaves the process at once): the entries after it are not visited.
  So an unreadable source is reported also when it is not on the first line, as long as the
  sources before it are readable.
\<close>

theorem deploy_check_stops_at_first_unreadable:
  assumes "args_input s = Some f" and "f \<noteq> []" and "os_read w (cwd s) f = Some text"
      and "readlines text = pre @ l # post"
      and "deploy_check w pre (emit (Open (cwd s) f) s) = (s1, Return ())"
      and "\<not> startswith ''#'' l" and "split_first_colon (rstrip l) = Some (key, path)"
      and "\<not> os_access w (cwd s1) path"
  shows "cmd_deploy w s =
           (emit (Print (cannot_access @ path)) (emit (Access (cwd s1) path) s1), Exit 1)
         \<and> checked_sources (trace (fst (cmd_deploy w s)))
             = checked_sources (trace s) @ map snd (entries pre) @ [path]"
proof -
  have line: "deploy_check_line w l s1 =
                (emit (Print (cannot_access @ path)) (emit (Access (cwd s1) path) s1), Exit 1)"
    using assms(6,7,8) by (simp add: deploy_check_line_def check_file_def)
  have "deploy_check w (pre @ l # post) (emit (Open (cwd s) f) s) =
          (emit (Print (cannot_access @ path)) (emit (Access (cwd s1) path) s1), Exit 1)"
    using assms(5) line by (simp add: deploy_check_append)
  then have run: "cmd_deploy w s =
          (emit (Print (cannot_access @ path)) (emit (Access (cwd s1) path) s1), Exit 1)"
    using assms(1,2,3,4) by (simp add: cmd_deploy_def check_option_def)
  have "checked_sources (trace s1) = checked_sources (trace s) @ map snd (entries pre)"
    using deploy_check_sources[OF assms(5)] by (simp add: checked_sources_append)
  then show ?thesis using run by (simp add: checked_sources_append)
qed

text \<open>
  C3 on a mapping of three entries whose second source is missing: the loop looks at the
  first two sources, exits with code 1 and never looks at the third.
\<close>

theorem deploy_check_stops_at_first_unreadable_witness:
  "\<not> os_access ex_missing_middle ''/m'' ''missing.json'' \<and>
   snd (cmd_deploy ex_missing_middle example_state) = Exit 1 \<and>
   checked_sources (trace (fst (cmd_deploy ex_missing_middle example_state)))
     = [''x.json'', ''missing.json'']"
proof -
  let ?s0 = "emit (Open (cwd example_state) ''map.txt'') example_state"
  let ?s1 = "fst (deploy_check ex_missing_middle [line ''/a:x.json''] ?s0)"
  have h1: "args_input example_state = Some ''map.txt''"
    by (simp add: example_state_def)
  have h2: "''map.txt'' \<noteq> []" by simp
  have h3: "os_read ex_missing_middle (cwd example_state) ''map.txt''
              = Some (line ''/a:x.json'' @ line ''/b:missing.json'' @ line ''/c:x.json'')"
    by code_simp
  have h4: "readlines (line ''/a:x.json'' @ line ''/b:missing.json'' @ line ''/c:x.json'')
              = [line ''/a:x.json''] @ line ''/b:missing.json'' # [line ''/c:x.json'']"
    by code_simp
  have "snd (deploy_check ex_missing_middle [line ''/a:x.json''] ?s0) = Return ()"
    by code_simp
  then have h5: "deploy_check ex_missing_middle [line ''/a:x.json''] ?s0 = (?s1, Return ())"
    by (simp add: prod_eq_iff)
  have h6: "\<not> startswith ''#'' (line ''/b:missing.json'')" by code_simp
  have h7: "split_first_colon (rstrip (line ''/b:missing.json'')) = Some (''/b'', ''missing.json'')"
    by code_simp
  have c: "cwd ?s1 = ''/m''" by code_simp
  have h8: "\<not> os_access ex_missing_middle (cwd ?s1) ''missing.json''"
    unfolding c by code_simp
  have e: "map snd (entries [line ''/a:x.json'']) = [''x.json'']" by code_simp
  have t: "trace example_state = []" by (simp add: example_state_def)
  note run = deploy_check_stops_at_first_unreadable[OF h1 h2 h3 h4 h5 h6 h7 h8]
  have r: "snd (cmd_deploy ex_missing_middle example_state) = Exit 1"
    by (simp only: run[THEN conjunct1] snd_conv)
  have v: "checked_sources (trace (fst (cmd_deploy ex_missing_middle example_state)))
             = [''x.json'', ''missing.json'']"
    by (simp only: run[THEN conjunct2] e t checked_sources.simps append.simps)
  show ?thesis
    using h8 r v by (simp only: c simp_thms)
qed

text \<open>
  C3 as stated fails: with two entries whose sources are both missing, the loop looks at the
  first source only and exits; the second entry is not visited before the abort.
\<close>

theorem deploy_check_exhaustive_counterexample:
  "map snd (entries (readlines (line ''/a:missing1.json'' @ line ''/b:missing2.json'')))
     = [''missing1.json'', ''missing2.json''] \<and>
   checked_sources (trace (fst (cmd_deploy ex_two_missing example_state))) = [''missing1.json''] \<and>
   snd (cmd_deploy ex_two_missing example_state) = Exit 1"
proof -
  have "map snd (entries (readlines (line ''/a:missing1.json'' @ line ''/b:missing2.json'')))
          = [''missing1.json'', ''missing2.json'']"
    by code_simp
  moreover have "checked_sources (trace (fst (cmd_deploy ex_two_missing example_state)))
          = [''missing1.json'']"
    by code_simp
  moreover have "snd (cmd_deploy ex_two_missing example_state) = Exit 1"
    by code_simp
  ultimately show ?thesis by simp
qed

section \<open>The second loop of deploy\<close>

lemma deploy_commit_append:
  "deploy_commit w (pre @ ls) s =
     (case deploy_commit w pre s of (s1, Return u) \<Rightarrow> deploy_commit w ls s1 | (s1, r) \<Rightarrow> (s1, r))"
  by (induction pre arbitrary: s) (auto split: prod.splits result.splits)

text \<open>
  C2, as the code has it. Nothing catches the \<^verbatim>\<open>ValueError\<close> of \<^verbatim>\<open>loads\<close>:
  when the second loop reaches an entry whose payload is not valid JSON, the whole deploy
  ends there with that exception. The entries before it have been processed; neither that
  entry nor any later one is.
\<close>

theorem deploy_aborts_at_invalid_payload:
  assumes "args_input s = Some f" and "f \<noteq> []" and "os_read w (cwd s) f = Some text"
      and "readlines text = pre @ l # post"
      and "deploy_check w (readlines text) (emit (Open (cwd s) f) s) = (s1, Return ())"
      and "deploy_commit w pre s1 = (s2, Return ())"
      and "\<not> startswith ''#'' l" and "split_first_colon (rstrip l) = Some (key, path)"
      and "os_read w (cwd s2) path = Some payload" and "json_canon w (rstrip payload) = None"
  shows "cmd_deploy w s = (emit (Open (cwd s2) path) s2, Raise ValueError)"
proof -
  have line: "deploy_commit_line w l s2 = (emit (Open (cwd s2) path) s2, Raise ValueError)"
    using assms(7-10)
    by (simp add: deploy_commit_line_def read_json_from_file_def check_json_def)
  have "deploy_commit w (pre @ l # post) s1 = (emit (Open (cwd s2) path) s2, Raise ValueError)"
    using assms(6) line by (simp add: deploy_commit_append)
  then show ?thesis
    using assms(1-5) by (simp add: cmd_deploy_def check_option_def)
qed

text \<open>
  C2 on a mapping of three entries whose second payload is not JSON: the first node is set,
  the deploy ends with \<^verbatim>\<open>ValueError\<close>, the third node is never set.
\<close>

theorem deploy_aborts_at_invalid_payload_witness:
  "json_canon ex_invalid_middle (rstrip ''oops'') = None \<and>
   snd (cmd_deploy ex_invalid_middle example_state) = Raise ValueError \<and>
   pick applied (trace (fst (cmd_deploy ex_invalid_middle example_state))) = [(''/a'', Some ''{}'')]"
proof -
  let ?text = "line ''/a:good.json'' @ line ''/b:bad.json'' @ line ''/c:good.json''"
  let ?s0 = "emit (Open (cwd example_state) ''map.txt'') example_state"
  let ?s1 = "fst (deploy_check ex_invalid_middle (readlines ?text) ?s0)"
  let ?s2 = "fst (deploy_commit ex_invalid_middle [line ''/a:good.json''] ?s1)"
  have h1: "args_input example_state = Some ''map.txt''"
    by (simp add: example_state_def)
  have h2: "''map.txt'' \<noteq> []" by simp
  have h3: "os_read ex_invalid_middle (cwd example_state) ''map.txt'' = Some ?text"
    by code_simp
  have h4: "readlines ?text = [line ''/a:good.json''] @ line ''/b:bad.json'' # [line ''/c:good.json'']"
    by code_simp
  have "snd (deploy_check ex_invalid_middle (readlines ?text) ?s0) = Return ()"
    by code_simp
  then have h5: "deploy_check ex_invalid_middle (readlines ?text) ?s0 = (?s1, Return ())"
    by (simp add: prod_eq_iff)
  have "snd (deploy_commit ex_invalid_middle [line ''/a:good.json''] ?s1) = Return ()"
    by code_simp
  then have h6: "deploy_commit ex_invalid_middle [line ''/a:good.json''] ?s1 = (?s2, Return ())"
    by (simp add: prod_eq_iff)
  have h7: "\<not> startswith ''#'' (line ''/b:bad.json'')" by code_simp
  have h8: "split_first_colon (rstrip (line ''/b:bad.json'')) = Some (''/b'', ''bad.json'')"
    by code_simp
  have h9: "os_read ex_invalid_middle (cwd ?s2) ''bad.json'' = Some ''oops''" by code_simp
  have h10: "json_canon ex_invalid_middle (rstrip ''oops'') = None" by code_simp
  have a: "pick applied (trace (fst (cmd_deploy ex_invalid_middle example_state)))
             = [(''/a'', Some ''{}'')]"
    by code_simp
  have r: "snd (cmd_deploy ex_invalid_middle example_state) = Raise ValueError"
    by (simp only: deploy_aborts_at_invalid_payload[OF h1 h2 h3 h4 h5 h6 h7 h8 h9 h10] snd_conv)
  show ?thesis
    using h10 r a by (simp only: simp_thms)
qed

text \<open>
  C2 as stated fails: the first payload is not JSON, the second entry is valid, and the
  deploy ends with \<^verbatim>\<open>ValueError\<close> without setting any node: the entry after the
  invalid one is not processed.
\<close>

theorem deploy_invalid_payload_counterexample:
  "payload_ok ex_invalid_first ''/m'' (line ''/b:good.json'') \<and>
   snd (cmd_deploy ex_invalid_first example_state) = Raise ValueError \<and>
   pick attempted (trace (fst (cmd_deploy ex_invalid_first example_state))) = [] \<and>
   pick applied (trace (fst (cmd_deploy ex_invalid_first example_state))) = []"
proof -
  have "payload_ok ex_invalid_first ''/m'' (line ''/b:good.json'')"
    by code_simp
  moreover have "snd (cmd_deploy ex_invalid_first example_state) = Raise ValueError"
    by code_simp
  moreover have "pick attempted (trace (fst (cmd_deploy ex_invalid_first example_state))) = []"
    by code_simp
  moreover have "pick applied (trace (fst (cmd_deploy ex_invalid_first example_state))) = []"
    by code_simp
  ultimately show ?thesis by simp
qed

lemma pick_simps [simp]:
  "pick f [] = []"
  "pick f (x # xs) = (case f x of None \<Rightarrow> [] | Some y \<Rightarrow> [y]) @ pick f xs"
  "pick f (xs @ ys) = pick f xs @ pick f ys"
  by (simp_all add: pick_def)

section \<open>Where the sources are looked for\<close>

text \<open>
  C9 does not hold of the code: \<^verbatim>\<open>check_file\<close> moves the process into the
  directory of every source it accepts, so a relative source is resolved against the
  directory of the source before it, and the second loop resolves all of them against the
  directory of the last one. With the single entry \<^verbatim>\<open>/a:sub/x.json\<close> in
  \<^verbatim>\<open>/m/map.txt\<close> and a readable \<^verbatim>\<open>/m/sub/x.json\<close>, the first loop accepts
  the source and the second loop opens \<^verbatim>\<open>sub/x.json\<close> from \<^verbatim>\<open>/m/sub\<close>:
  \<^verbatim>\<open>IOError\<close>. With a second entry \<^verbatim>\<open>/b:y.json\<close> and a readable
  \<^verbatim>\<open>/m/y.json\<close>, the first loop looks for \<^verbatim>\<open>y.json\<close> in
  \<^verbatim>\<open>/m/sub\<close> and exits.
\<close>

theorem deploy_source_resolution_drifts:
  "os_read ex_subdir ''/m'' ''sub/x.json'' = Some ''{}'' \<and>
   trace (fst (cmd_deploy ex_subdir example_state))
     = [Open ''/m'' ''map.txt'', Access ''/m'' ''sub/x.json'', Chdir ''/m/sub'',
        Open ''/m/sub'' ''sub/x.json''] \<and>
   snd (cmd_deploy ex_subdir example_state) = Raise IOError \<and>
   os_access ex_after_subdir ''/m'' ''y.json'' \<and>
   trace (fst (cmd_deploy ex_after_subdir example_state))
     = [Open ''/m'' ''map.txt'', Access ''/m'' ''sub/x.json'', Chdir ''/m/sub'',
        Access ''/m/sub'' ''y.json'', Print (cannot_access @ ''y.json'')] \<and>
   snd (cmd_deploy ex_after_subdir example_state) = Exit 1"
proof -
  have "os_read ex_subdir ''/m'' ''sub/x.json'' = Some ''{}''"
    by code_simp
  moreover have "trace (fst (cmd_deploy ex_subdir example_state))
     = [Open ''/m'' ''map.txt'', Access ''/m'' ''sub/x.json'', Chdir ''/m/sub'',
        Open ''/m/sub'' ''sub/x.json'']"
    by code_simp
  moreover have "snd (cmd_deploy ex_subdir example_state) = Raise IOError"
    by code_simp
  moreover have "os_access ex_after_subdir ''/m'' ''y.json''"
    by code_simp
  moreover have "trace (fst (cmd_deploy ex_after_subdir example_state))
     = [Open ''/m'' ''map.txt'', Access ''/m'' ''sub/x.json'', Chdir ''/m/sub'',
        Access ''/m/sub'' ''y.json'', Print (cannot_access @ ''y.json'')]"
    by code_simp
  moreover have "snd (cmd_deploy ex_after_subdir example_state) = Exit 1"
    by code_simp
  ultimately show ?thesis by (simp only: simp_thms)
qed

text \<open>
  C1 does not hold of the code, by the same move of the working directory. The mapping
  \<^verbatim>\<open>/m/map.txt\<close> names \<^verbatim>\<open>sub/x.json\<close> and then \<^verbatim>\<open>y.json\<close>, and
  \<^verbatim>\<open>/m/y.json\<close> does not exist: the second source is unreadable. The first loop has
  moved to \<^verbatim>\<open>/m/sub\<close> when it checks \<^verbatim>\<open>y.json\<close>, finds a file of that name
  there and accepts the mapping; the second loop then sets both nodes, from the files under
  \<^verbatim>\<open>/m/sub\<close>. Likewise a source that \<^verbatim>\<open>access\<close> accepts and
  \<^verbatim>\<open>open\<close> refuses (a directory) passes the first loop, and the node of the entry
  before it is set before the deploy ends with \<^verbatim>\<open>IOError\<close>.
\<close>

theorem deploy_sets_nodes_despite_unreadable_source:
  "\<not> os_access ex_missing_beside ''/m'' ''y.json'' \<and>
   os_read ex_missing_beside ''/m'' ''y.json'' = None \<and>
   trace (fst (cmd_deploy ex_missing_beside example_state))
     = [Open ''/m'' ''map.txt'', Access ''/m'' ''sub/x.json'', Chdir ''/m/sub'',
        Access ''/m/sub'' ''y.json'', Chdir ''/m/sub'',
        Open ''/m/sub'' ''sub/x.json'', ZkExists ''/a'' (Inr False), Print ''Creating znode /a'',
        ZkEnsurePath ''/a'' None, ZkSet ''/a'' (Some ''{}'') None,
        Open ''/m/sub'' ''y.json'', ZkExists ''/b'' (Inr False), Print ''Creating znode /b'',
        ZkEnsurePath ''/b'' None, ZkSet ''/b'' (Some ''{}'') None] \<and>
   snd (cmd_deploy ex_missing_beside example_state) = Return () \<and>
   os_read ex_source_is_directory ''/m'' ''dir'' = None \<and>
   trace (fst (cmd_deploy ex_source_is_directory example_state))
     = [Open ''/m'' ''map.txt'', Access ''/m'' ''x.json'', Chdir ''/m'',
        Access ''/m'' ''dir'', Chdir ''/m'',
        Open ''/m'' ''x.json'', ZkExists ''/a'' (Inr False), Print ''Creating znode /a'',
        ZkEnsurePath ''/a'' None, ZkSet ''/a'' (Some ''{}'') None,
        Open ''/m'' ''dir''] \<and>
   snd (cmd_deploy ex_source_is_directory example_state) = Raise IOError"
proof -
  have "\<not> os_access ex_missing_beside ''/m'' ''y.json''"
    by code_simp
  moreover have "os_read ex_missing_beside ''/m'' ''y.json'' = None"
    by code_simp
  moreover have "trace (fst (cmd_deploy ex_missing_beside example_state))
     = [Open ''/m'' ''map.txt'', Access ''/m'' ''sub/x.json'', Chdir ''/m/sub'',
        Access ''/m/sub'' ''y.json'', Chdir ''/m/sub'',
        Open ''/m/sub'' ''sub/x.json'', ZkExists ''/a'' (Inr False), Print ''Creating znode /a'',
        ZkEnsurePath ''/a'' None, ZkSet ''/a'' (Some ''{}'') None,
        Open ''/m/sub'' ''y.json'', ZkExists ''/b'' (Inr False), Print ''Creating znode /b'',
        ZkEnsurePath ''/b'' None, ZkSet ''/b'' (Some ''{}'') None]"
    by code_simp
  moreover have "snd (cmd_deploy ex_missing_beside example_state) = Return ()"
    by code_simp
  moreover have "os_read ex_source_is_directory ''/m'' ''dir'' = None"
    by code_simp
  moreover have "trace (fst (cmd_deploy ex_source_is_directory example_state))
     = [Open ''/m'' ''map.txt'', Access ''/m'' ''x.json'', Chdir ''/m'',
        Access ''/m'' ''dir'', Chdir ''/m'',
        Open ''/m'' ''x.json'', ZkExists ''/a'' (Inr False), Print ''Creating znode /a'',
        ZkEnsurePath ''/a'' None, ZkSet ''/a'' (Some ''{}'') None,
        Open ''/m'' ''dir'']"
    by code_simp
  moreover have "snd (cmd_deploy ex_source_is_directory example_state) = Raise IOError"
    by code_simp
  ultimately show ?thesis by (simp only: simp_thms)
qed


section \<open>Status and the release of the connection\<close>

text \<open>
  C8, as the code has it. When the probe is answered, \<^verbatim>\<open>cmd_status\<close> prints
  \<^verbatim>\<open>OK\<close> and exits with code 0 exactly when the answer CONTAINS the token
  \<^verbatim>\<open>imok\<close>; for every other answer it prints the warning with the answer and
  exits with code 1.
\<close>

theorem cmd_status_contains:
  assumes "zk_command w (length (trace s)) ''ruok'' = Inr ret"
  shows "(snd (cmd_status w s) = Exit 0 \<longleftrightarrow> (\<exists>pre post. ret = pre @ ''imok'' @ post)) \<and>
         (snd (cmd_status w s) = Exit 0 \<longrightarrow>
            cmd_status w s = (emit (Print ''OK'') (emit (ZkCommand ''ruok'') s), Exit 0)) \<and>
         (snd (cmd_status w s) \<noteq> Exit 0 \<longrightarrow>
            cmd_status w s = (emit (Print (''WARN - Server replied : '' @ ret))
                                (emit (ZkCommand ''ruok'') s), Exit 1))"
  using assms by (auto simp: cmd_status_def sublist_def)

text \<open>C8 on the answer \<^verbatim>\<open>imok\<close> followed by a newline: the status is OK.\<close>

theorem cmd_status_contains_witness:
  "zk_command (example_world [] (\<lambda>p. None) (line ''imok'')) (length (trace example_state)) ''ruok''
     = Inr (line ''imok'') \<and>
   snd (cmd_status (example_world [] (\<lambda>p. None) (line ''imok'')) example_state) = Exit 0"
proof -
  have h: "zk_command (example_world [] (\<lambda>p. None) (line ''imok'')) (length (trace example_state)) ''ruok''
             = Inr (line ''imok'')"
    by (simp add: example_world_def)
  have e: "\<exists>pre post. line ''imok'' = pre @ ''imok'' @ post"
    by (intro exI[of _ "[]"] exI[of _ "[CHR 0x0A]"]) (simp add: line_def)
  have "snd (cmd_status (example_world [] (\<lambda>p. None) (line ''imok'')) example_state) = Exit 0"
    using cmd_status_contains[OF h, THEN conjunct1] e by (simp only: simp_thms)
  then show ?thesis using h by (simp only: simp_thms)
qed

text \<open>
  C8 as stated fails: the answer \<^verbatim>\<open>not imok\<close> is not the acknowledgment token,
  and the status is OK with exit code 0.
\<close>

theorem cmd_status_exact_counterexample:
  "''not imok'' \<noteq> ''imok'' \<and>
   cmd_status (example_world [] (\<lambda>p. None) ''not imok'') example_state
     = (emit (Print ''OK'') (emit (ZkCommand ''ruok'') example_state), Exit 0)"
  by (simp add: cmd_status_def example_world_def sublist_code prefix_code)

text \<open>
  C7 does not hold of the code. \<^verbatim>\<open>tear_down\<close> is safe without a client (it only
  exits), and a command that returns reaches \<^verbatim>\<open>tear_down(0)\<close>, which stops and
  closes the client. But \<^verbatim>\<open>cmd_status\<close> leaves through \<^verbatim>\<open>exit\<close> itself:
  on a healthy service the process exits with code 0 while the client is still connected,
  and no \<^verbatim>\<open>stop\<close> or \<^verbatim>\<open>close\<close> was called.
\<close>

theorem status_exits_without_release:
  "tear_down code (s\<lparr>zk_defined := False\<rparr>) = (s\<lparr>zk_defined := False\<rparr>, Exit code) \<and>
   trace (fst (main (example_world [] (\<lambda>p. None) ''imok'') (\<lambda>s. (s, Return ())) initial_state))
     = [ZkStart None, ZkStop, ZkClose] \<and>
   trace (fst (main (example_world [] (\<lambda>p. None) ''imok'')
                 (cmd_status (example_world [] (\<lambda>p. None) ''imok'')) initial_state))
     = [ZkStart None, ZkCommand ''ruok'', Print ''OK''] \<and>
   connected (fst (main (example_world [] (\<lambda>p. None) ''imok'')
                 (cmd_status (example_world [] (\<lambda>p. None) ''imok'')) initial_state)) \<and>
   snd (main (example_world [] (\<lambda>p. None) ''imok'')
                 (cmd_status (example_world [] (\<lambda>p. None) ''imok'')) initial_state) = Exit 0"
proof -
  have "tear_down code (s\<lparr>zk_defined := False\<rparr>) = (s\<lparr>zk_defined := False\<rparr>, Exit code)"
    by (simp add: tear_down_def)
  moreover have "trace (fst (main (example_world [] (\<lambda>p. None) ''imok'') (\<lambda>s. (s, Return ())) initial_state))
     = [ZkStart None, ZkStop, ZkClose]"
    by code_simp
  moreover have "trace (fst (main (example_world [] (\<lambda>p. None) ''imok'')
                 (cmd_status (example_world [] (\<lambda>p. None) ''imok'')) initial_state))
     = [ZkStart None, ZkCommand ''ruok'', Print ''OK'']"
    by code_simp
  moreover have "connected (fst (main (example_world [] (\<lambda>p. None) ''imok'')
                 (cmd_status (example_world [] (\<lambda>p. None) ''imok'')) initial_state))"
    by code_simp
  moreover have "snd (main (example_world [] (\<lambda>p. None) ''imok'')
                 (cmd_status (example_world [] (\<lambda>p. None) ''imok'')) initial_state) = Exit 0"
    by code_simp
  ultimately show ?thesis by (simp only: simp_thms)
qed

section \<open>Set with an input file\<close>

lemma call_set_payload:
  "\<exists>evs. trace (fst (call_set w z s)) = trace s @ evs \<and> set (pick set_payload evs) \<subseteq> {args_values s}
     \<and> args_values (fst (call_set w z s)) = args_values s
     \<and> args_value (fst (call_set w z s)) = args_value s"
  by (cases "zk_set w (length (trace s)) z (args_values s)") (simp_all add: call_set_def)

lemma create_and_set_try_payload:
  "\<exists>evs. trace (fst (create_and_set_try w s)) = trace s @ evs
     \<and> set (pick set_payload evs) \<subseteq> {args_values s}
     \<and> args_values (fst (create_and_set_try w s)) = args_values s
     \<and> args_value (fst (create_and_set_try w s)) = args_value s"
proof (cases "args_znode s")
  case None
  then show ?thesis by (simp add: create_and_set_try_def)
next
  case (Some z)
  show ?thesis
  proof (cases "zk_exists w (length (trace s)) z")
    case (Inl e)
    then show ?thesis using Some by (simp add: create_and_set_try_def)
  next
    case (Inr b)
    show ?thesis
    proof (cases b)
      case True
      let ?s1 = "emit (ZkExists z (Inr b)) s"
      from call_set_payload[of w z ?s1] obtain evs where
        "trace (fst (call_set w z ?s1)) = trace ?s1 @ evs"
        "set (pick set_payload evs) \<subseteq> {args_values ?s1}"
        "args_values (fst (call_set w z ?s1)) = args_values ?s1"
        "args_value (fst (call_set w z ?s1)) = args_value ?s1" by blast
      then show ?thesis using Some Inr True
        by (intro exI[of _ "ZkExists z (Inr b) # evs"]) (simp add: create_and_set_try_def)
    next
      case False
      let ?s1 = "emit (Print (''Creating znode '' @ z)) (emit (ZkExists z (Inr b)) s)"
      show ?thesis
      proof (cases "zk_ensure_path w (length (trace ?s1)) z")
        case (Some e)
        then show ?thesis using \<open>args_znode s = Some z\<close> Inr False
          by (simp add: create_and_set_try_def Let_def)
      next
        case None
        let ?s2 = "emit (ZkEnsurePath z None) ?s1"
        from call_set_payload[of w z ?s2] obtain evs where
          "trace (fst (call_set w z ?s2)) = trace ?s2 @ evs"
          "set (pick set_payload evs) \<subseteq> {args_values ?s2}"
          "args_values (fst (call_set w z ?s2)) = args_values ?s2"
          "args_value (fst (call_set w z ?s2)) = args_value ?s2" by blast
        then show ?thesis using \<open>args_znode s = Some z\<close> Inr False None
          by (intro exI[of _ "[ZkExists z (Inr b), Print (''Creating znode '' @ z),
                                ZkEnsurePath z None] @ evs"])
             (simp add: create_and_set_try_def Let_def)
      qed
    qed
  qed
qed

lemma create_and_set_payload:
  "\<exists>evs. trace (fst (create_and_set w s)) = trace s @ evs
     \<and> set (pick set_payload evs) \<subseteq> {args_values s}
     \<and> args_values (fst (create_and_set w s)) = args_values s
     \<and> args_value (fst (create_and_set w s)) = args_value s"
proof -
  from create_and_set_try_payload[of w s] obtain evs where
    t: "trace (fst (create_and_set_try w s)) = trace s @ evs"
    "set (pick set_payload evs) \<subseteq> {args_values s}"
    "args_values (fst (create_and_set_try w s)) = args_values s"
    "args_value (fst (create_and_set_try w s)) = args_value s" by blast
  obtain s' r where cs: "create_and_set_try w s = (s', r)" by (cases "create_and_set_try w s")
  show ?thesis
  proof (cases "\<exists>m. r = Raise (NoNodeError m) \<or> r = Raise (ZookeeperError m)")
    case True
    then obtain m where "r = Raise (NoNodeError m) \<or> r = Raise (ZookeeperError m)" by blast
    then show ?thesis using t cs
      by (intro exI[of _ "evs @ [Print (error_report m)]"]) (auto simp: create_and_set_def)
  next
    case False
    then have "create_and_set w s = (s', r)" using cs
      by (cases r) (auto simp: create_and_set_def split: exn.splits)
    then show ?thesis using t cs by (intro exI[of _ evs]) simp
  qed
qed

text \<open>
  C10. When \<^verbatim>\<open>set\<close> is asked with \<^verbatim>\<open>--input\<close> and without
  \<^verbatim>\<open>--values\<close>, every \<^verbatim>\<open>zk.set\<close> that \<^verbatim>\<open>cmd_set\<close> issues passes
  \<^verbatim>\<open>args.values\<close>, which is \<^verbatim>\<open>None\<close> and stays so. When the node is given and
  the file holds valid JSON, the canonical payload goes to the attribute
  \<^verbatim>\<open>args.value\<close> and \<^verbatim>\<open>create_and_set\<close> runs with \<^verbatim>\<open>args.values\<close>
  unchanged: the content of the file is never written to the node.
\<close>

theorem cmd_set_input_payload_unused:
  assumes "args_input s = Some f" and "f \<noteq> []" and "args_values s = None"
  shows "(\<forall>x \<in> set (pick set_payload (events_since s (fst (cmd_set w s)))). x = None) \<and>
         args_values (fst (cmd_set w s)) = None \<and>
         (\<forall>z body v. args_znode s = Some z \<and> z \<noteq> [] \<and> os_read w (cwd s) f = Some body
             \<and> json_canon w (rstrip body) = Some v \<longrightarrow>
            cmd_set w s = create_and_set w ((emit (Open (cwd s) f) s)\<lparr>args_value := Some v\<rparr>) \<and>
            args_value (fst (cmd_set w s)) = Some v)"
proof -
  have A: "(\<forall>x \<in> set (pick set_payload (events_since s (fst (cmd_set w s)))). x = None) \<and>
         args_values (fst (cmd_set w s)) = None"
  proof (cases "falsy (args_znode s)")
    case True
    then show ?thesis using assms
      by (simp add: cmd_set_def check_option_def tear_down_def events_since_def)
  next
    case False
    show ?thesis
    proof (cases "os_read w (cwd s) f")
      case None
      then show ?thesis using assms False
        by (simp add: cmd_set_def check_option_def events_since_def)
    next
      case (Some body)
      show ?thesis
      proof (cases "json_canon w (rstrip body)")
        case None
        then show ?thesis using assms False Some
          by (simp add: cmd_set_def check_option_def events_since_def read_json_from_file_def
                check_json_def)
      next
        case (Some v)
        let ?s1 = "(emit (Open (cwd s) f) s)\<lparr>args_value := Some v\<rparr>"
        have run: "cmd_set w s = create_and_set w ?s1"
          using assms False \<open>os_read w (cwd s) f = Some body\<close> Some
          by (simp add: cmd_set_def check_option_def read_json_from_file_def check_json_def)
        from create_and_set_payload[of w ?s1] obtain evs where
          "trace (fst (create_and_set w ?s1)) = trace ?s1 @ evs"
          "set (pick set_payload evs) \<subseteq> {args_values ?s1}"
          "args_values (fst (create_and_set w ?s1)) = args_values ?s1" by blast
        then show ?thesis using run assms(3)
          by (auto simp: events_since_def)
      qed
    qed
  qed
  have B: "\<And>z body v. args_znode s = Some z \<Longrightarrow> z \<noteq> [] \<Longrightarrow> os_read w (cwd s) f = Some body \<Longrightarrow>
             json_canon w (rstrip body) = Some v \<Longrightarrow>
            cmd_set w s = create_and_set w ((emit (Open (cwd s) f) s)\<lparr>args_value := Some v\<rparr>) \<and>
            args_value (fst (cmd_set w s)) = Some v"
  proof -
    fix z body v
    assume h: "args_znode s = Some z" "z \<noteq> []" "os_read w (cwd s) f = Some body"
      "json_canon w (rstrip body) = Some v"
    let ?s1 = "(emit (Open (cwd s) f) s)\<lparr>args_value := Some v\<rparr>"
    have run: "cmd_set w s = create_and_set w ?s1"
      using assms h
      by (simp add: cmd_set_def check_option_def read_json_from_file_def check_json_def)
    from create_and_set_payload[of w ?s1] have "args_value (fst (create_and_set w ?s1)) = Some v"
      by auto
    then show "cmd_set w s = create_and_set w ?s1 \<and> args_value (fst (cmd_set w s)) = Some v"
      using run by simp
  qed
  show ?thesis using A B by blast
qed

text \<open>
  C10 on \<^verbatim>\<open>--znode /a --input /m/v.json\<close> with \<^verbatim>\<open>{}\<close> in the file: the one
  \<^verbatim>\<open>zk.set\<close> passes \<^verbatim>\<open>None\<close>, and the payload sits in \<^verbatim>\<open>args.value\<close>.
\<close>

theorem cmd_set_input_payload_unused_witness:
  "args_values (example_state\<lparr>args_input := Some ''v.json'', args_znode := Some ''/a''\<rparr>) = None \<and>
   pick set_payload (trace (fst (cmd_set (example_world [(''/m/v.json'', ''{}'')] (\<lambda>p. None) ''imok'')
      (example_state\<lparr>args_input := Some ''v.json'', args_znode := Some ''/a''\<rparr>)))) = [None] \<and>
   args_values (fst (cmd_set (example_world [(''/m/v.json'', ''{}'')] (\<lambda>p. None) ''imok'')
      (example_state\<lparr>args_input := Some ''v.json'', args_znode := Some ''/a''\<rparr>))) = None \<and>
   args_value (fst (cmd_set (example_world [(''/m/v.json'', ''{}'')] (\<lambda>p. None) ''imok'')
      (example_state\<lparr>args_input := Some ''v.json'', args_znode := Some ''/a''\<rparr>))) = Some ''{}''"
proof -
  let ?w = "example_world [(''/m/v.json'', ''{}'')] (\<lambda>p. None) ''imok''"
  let ?s = "example_state\<lparr>args_input := Some ''v.json'', args_znode := Some ''/a''\<rparr>"
  have h1: "args_input ?s = Some ''v.json''" by simp
  have h2: "''v.json'' \<noteq> []" by simp
  have h3: "args_values ?s = None" by (simp add: example_state_def)
  have z: "args_znode ?s = Some ''/a'' \<and> ''/a'' \<noteq> [] \<and> os_read ?w (cwd ?s) ''v.json'' = Some ''{}''
             \<and> json_canon ?w (rstrip ''{}'') = Some ''{}''"
    by code_simp
  note run = cmd_set_input_payload_unused[OF h1 h2 h3, of ?w]
  have v: "args_values (fst (cmd_set ?w ?s)) = None"
    by (rule run[THEN conjunct2, THEN conjunct1])
  have a: "args_value (fst (cmd_set ?w ?s)) = Some ''{}''"
    using run[THEN conjunct2, THEN conjunct2] z by blast
  have p: "pick set_payload (trace (fst (cmd_set ?w ?s))) = [None]"
    by code_simp
  show ?thesis using h3 p v a by (simp only: simp_thms)
qed

end
